theory Spec2Isabelle
  imports Main
begin

section \<open>Errors and their aggregation\<close>

text \<open>
  A Go \<^verbatim>\<open>error\<close> is modelled as \<open>error option\<close>: \<open>None\<close> is \<^verbatim>\<open>nil\<close>.
  \<open>ErrShortWrite\<close> is \<^verbatim>\<open>io.ErrShortWrite\<close>, \<open>Err\<close> any error a destination
  reports, and \<open>multiError\<close> the aggregate built by \<^verbatim>\<open>multierr\<close>.
\<close>

datatype error = ErrShortWrite | Err string | multiError "error list"

text \<open>
  Modelled from the spec: \<^verbatim>\<open>go.uber.org/multierr\<close> is imported by
  \<^verbatim>\<open>write_syncer.go\<close> and is not part of this repository. The spec asks for a
  combined error value "that can represent zero, one, or many underlying errors without
  losing any". \<open>Errors\<close> lists the errors a value stands for, and \<open>Append\<close> follows the
  library: a \<^verbatim>\<open>nil\<close> side is dropped, and two errors become one flat aggregate.
\<close>

fun Errors :: "error option \<Rightarrow> error list" where
  "Errors None = []"
| "Errors (Some (multiError es)) = es"
| "Errors (Some e) = [e]"

definition Append :: "error option \<Rightarrow> error option \<Rightarrow> error option" where
  "Append left right =
     (case left of
        None \<Rightarrow> right
      | Some l \<Rightarrow>
          (case right of
             None \<Rightarrow> left
           | Some r \<Rightarrow> Some (multiError (Errors left @ Errors right))))"

section \<open>Writers and sinks\<close>

text \<open>
  The destinations are effectful: a call changes the world outside (a file, a terminal, a
  test double that records what it was given). The world is a state of type \<open>'st\<close>, passed
  to every call and returned by it. A method of a type declared outside this file is the
  function it computes on byte strings and the world.

  \<open>'st Writer\<close> are the values of interface type \<^verbatim>\<open>io.Writer\<close>, and
  \<open>'st WriteSyncer\<close> the values of interface type \<^verbatim>\<open>WriteSyncer\<close>, each by its
  dynamic type:
  \<^item> \<open>Plain w\<close>: a value whose type has \<^verbatim>\<open>Write\<close> and no \<^verbatim>\<open>Sync\<close>;
  \<^item> \<open>Syncer s\<close>: a \<^verbatim>\<open>WriteSyncer\<close> seen as an \<^verbatim>\<open>io.Writer\<close>;
  \<^item> \<open>Foreign w s\<close>: a value of a type declared elsewhere that has both methods
    (such as \<^verbatim>\<open>*os.File\<close>);
  \<^item> \<open>writerWrapper w\<close>: the struct \<^verbatim>\<open>writerWrapper{w}\<close>;
  \<^item> \<open>lockedWriteSyncer a ws\<close>: a pointer \<^verbatim>\<open>*lockedWriteSyncer\<close>, by its address
    \<open>a\<close> and the field \<^verbatim>\<open>ws\<close> of the struct it points to (the field is never
    assigned after construction);
  \<^item> \<open>multiWriteSyncer ws\<close>: the slice type \<^verbatim>\<open>multiWriteSyncer\<close>.
\<close>

type_synonym addr = nat

type_synonym 'st write_method = "string \<Rightarrow> 'st \<Rightarrow> (int \<times> error option) \<times> 'st"

type_synonym 'st sync_method = "'st \<Rightarrow> error option \<times> 'st"

datatype 'st Writer =
    Plain "'st write_method"
  | Syncer "'st WriteSyncer"
and 'st WriteSyncer =
    Foreign "'st write_method" "'st sync_method"
  | writerWrapper "'st Writer"
  | lockedWriteSyncer addr "'st WriteSyncer"
  | multiWriteSyncer "'st WriteSyncer list"

text \<open>
  The methods. \<^verbatim>\<open>writerWrapper\<close> embeds its \<^verbatim>\<open>io.Writer\<close>, so its
  \<^verbatim>\<open>Write\<close> is the embedded value's. \<^verbatim>\<open>lockedWriteSyncer\<close> takes its mutex,
  calls the inner sink and releases the mutex; in this sequential model the mutex is free
  when a call starts and free again when it returns, so the call is the inner call.
  The two loops of \<^verbatim>\<open>multiWriteSyncer\<close> carry their local variables
  (\<^verbatim>\<open>writeErr\<close> and \<^verbatim>\<open>nWritten\<close>, or \<^verbatim>\<open>err\<close>) as arguments.
\<close>

fun Writer_Write :: "'st Writer \<Rightarrow> 'st write_method"
and Write :: "'st WriteSyncer \<Rightarrow> 'st write_method"
and multiWrite_loop ::
      "'st WriteSyncer list \<Rightarrow> string \<Rightarrow> error option \<Rightarrow> int \<Rightarrow> 'st \<Rightarrow> (int \<times> error option) \<times> 'st"
where
  "Writer_Write (Plain w) bs st = w bs st"
| "Writer_Write (Syncer s) bs st = Write s bs st"
| "Write (Foreign w s) bs st = w bs st"
| "Write (writerWrapper w) bs st = Writer_Write w bs st"
| "Write (lockedWriteSyncer a ws) bs st = Write ws bs st"
| "Write (multiWriteSyncer ws) p st = multiWrite_loop ws p None 0 st"
| "multiWrite_loop [] p writeErr nWritten st = ((nWritten, writeErr), st)"
| "multiWrite_loop (w # ws) p writeErr nWritten st =
     (case Write w p st of
        ((n, err), st') \<Rightarrow>
          multiWrite_loop ws p (Append writeErr err)
            (if nWritten = 0 \<and> n \<noteq> 0 then n else if n < nWritten then n else nWritten) st')"

fun Sync :: "'st WriteSyncer \<Rightarrow> 'st sync_method"
and multiSync_loop :: "'st WriteSyncer list \<Rightarrow> error option \<Rightarrow> 'st \<Rightarrow> error option \<times> 'st"
where
  "Sync (Foreign w s) st = s st"
| "Sync (writerWrapper w) st = (None, st)"
| "Sync (lockedWriteSyncer a ws) st = Sync ws st"
| "Sync (multiWriteSyncer ws) st = multiSync_loop ws None st"
| "multiSync_loop [] err st = (err, st)"
| "multiSync_loop (w # ws) err st =
     (case Sync w st of (e, st') \<Rightarrow> multiSync_loop ws (Append err e) st')"

section \<open>Constructors\<close>

text \<open>
  \<^verbatim>\<open>AddSync\<close> switches on the dynamic type of its argument: a value that is a
  \<^verbatim>\<open>WriteSyncer\<close> is returned as it is, any other is wrapped.
\<close>

fun AddSync :: "'st Writer \<Rightarrow> 'st WriteSyncer" where
  "AddSync (Syncer w) = w"
| "AddSync (Plain w) = writerWrapper (Plain w)"

text \<open>
  \<^verbatim>\<open>Lock\<close> allocates a new \<^verbatim>\<open>lockedWriteSyncer\<close> unless its argument already
  points to one. The heap is the next free address: an allocation returns it and moves it
  on, so two allocations never share an address.
\<close>

fun Lock :: "'st WriteSyncer \<Rightarrow> addr \<Rightarrow> 'st WriteSyncer \<times> addr" where
  "Lock (lockedWriteSyncer a ws) h = (lockedWriteSyncer a ws, h)"
| "Lock ws h = (lockedWriteSyncer h ws, Suc h)"

text \<open>
  \<^verbatim>\<open>NewMultiWriteSyncer\<close> returns its only argument when there is exactly one, and
  otherwise a copy of the argument slice as a \<^verbatim>\<open>multiWriteSyncer\<close>.
\<close>

definition NewMultiWriteSyncer :: "'st WriteSyncer list \<Rightarrow> 'st WriteSyncer" where
  "NewMultiWriteSyncer ws = (if length ws = 1 then ws ! 0 else multiWriteSyncer ws)"

section \<open>Panics and calls that do not return\<close>

text \<open>
  A Go call may panic instead of returning. The panics that the code below can raise are
  a slice expression out of range, \<^verbatim>\<open>time.NewTicker\<close> on a duration that is not
  positive, and closing a channel that is closed already. A call that loops for ever has
  no outcome at all: functions that may do so return an \<open>option\<close>, and \<open>None\<close> is the
  call that never returns.
\<close>

datatype panic = SliceBoundsOutOfRange | NonPositiveInterval | CloseOfClosedChannel

datatype 'a outcome = Returns 'a | Panics panic

text \<open>
  The slice expression \<^verbatim>\<open>s[lo:hi]\<close> on a slice whose capacity is its length, and
  \<^verbatim>\<open>copy(s[lo:], src)\<close>, which overwrites \<open>s\<close> from index \<open>lo\<close> with as many
  elements of \<open>src\<close> as fit and returns their number.
\<close>

definition slice :: "'a list \<Rightarrow> int \<Rightarrow> int \<Rightarrow> 'a list outcome" where
  "slice s lo hi =
     (if 0 \<le> lo \<and> lo \<le> hi \<and> hi \<le> int (length s)
      then Returns (take (nat (hi - lo)) (drop (nat lo) s))
      else Panics SliceBoundsOutOfRange)"

definition copy_at :: "'a list \<Rightarrow> int \<Rightarrow> 'a list \<Rightarrow> 'a list \<times> int" where
  "copy_at s lo src =
     (let m = min (length s - nat lo) (length src)
      in (take (nat lo) s @ take m src @ drop (nat lo + m) s, int m))"

section \<open>The buffered writer\<close>

text \<open>
  Modelled from the spec: \<^verbatim>\<open>bufio.Writer\<close> of Go's standard library is imported by
  \<^verbatim>\<open>write_syncer.go\<close> and is not part of this repository. The spec describes it as
  a buffer of bounded capacity whose append "may perform a physical write if the buffer
  cannot hold them even after clearing", which writes a record "as one physical op,
  unsplit, when nothing precedes it", and which is expected "to retain the first error
  internally and surface it on the next explicit flush or at close". The definitions
  follow the library's \<^verbatim>\<open>NewWriterSize\<close>, \<^verbatim>\<open>Available\<close>, \<^verbatim>\<open>Buffered\<close>,
  \<^verbatim>\<open>Flush\<close> and \<^verbatim>\<open>Write\<close> statement by statement.

  The fields are those of the library's struct (\<^verbatim>\<open>err\<close>, \<^verbatim>\<open>buf\<close>, \<^verbatim>\<open>n\<close>,
  \<^verbatim>\<open>wr\<close>), prefixed because a record field is a constant of the theory. \<open>bw_buf\<close>
  is the whole array, of fixed length; its first \<open>bw_n\<close> bytes are the buffered ones.
  \<^verbatim>\<open>NewWriterSize\<close> replaces a size that is not positive by its own default of 4096
  bytes. (It also returns its argument when that is a large enough
  \<^verbatim>\<open>*bufio.Writer\<close> already; no value of \<open>'st Writer\<close> is one.)
\<close>

record 'st bufio_Writer =
  bw_err :: "error option"
  bw_buf :: string
  bw_n :: int
  bw_wr :: "'st Writer"

definition defaultBufSize :: int where
  "defaultBufSize = 4096"

definition NewWriterSize :: "'st Writer \<Rightarrow> int \<Rightarrow> 'st bufio_Writer" where
  "NewWriterSize w sz =
     \<lparr>bw_err = None,
      bw_buf = replicate (nat (if sz \<le> 0 then defaultBufSize else sz)) (CHR 0x00),
      bw_n = 0,
      bw_wr = w\<rparr>"

definition Available :: "'st bufio_Writer \<Rightarrow> int" where
  "Available b = int (length (bw_buf b)) - bw_n b"

definition Buffered :: "'st bufio_Writer \<Rightarrow> int" where
  "Buffered b = bw_n b"

text \<open>
  \<^verbatim>\<open>Flush\<close> returns the retained error if there is one, and otherwise hands the
  buffered bytes to the underlying writer in one call. A short count without an error
  becomes \<^verbatim>\<open>io.ErrShortWrite\<close>. On an error the bytes that were not written are moved
  to the front of the buffer and the error is retained.
\<close>

definition Flush ::
  "'st bufio_Writer \<Rightarrow> 'st \<Rightarrow> (error option \<times> 'st bufio_Writer \<times> 'st) outcome" where
  "Flush b st =
     (if bw_err b \<noteq> None then Returns (bw_err b, b, st)
      else if bw_n b = 0 then Returns (None, b, st)
      else
        (case slice (bw_buf b) 0 (bw_n b) of
           Panics pn \<Rightarrow> Panics pn
         | Returns data \<Rightarrow>
             (case Writer_Write (bw_wr b) data st of
                ((n, err), st') \<Rightarrow>
                  (case (if n < bw_n b \<and> err = None then Some ErrShortWrite else err) of
                     Some e \<Rightarrow>
                       Returns (Some e,
                         b\<lparr>bw_buf :=
                             (if 0 < n \<and> n < bw_n b
                              then fst (copy_at (bw_buf b) 0
                                     (take (nat (bw_n b - n)) (drop (nat n) (bw_buf b))))
                              else bw_buf b),
                           bw_n := bw_n b - n,
                           bw_err := Some e\<rparr>,
                         st')
                   | None \<Rightarrow> Returns (None, b\<lparr>bw_n := 0\<rparr>, st')))))"

text \<open>
  The loop of \<^verbatim>\<open>Write\<close> runs while the bytes left do not fit and no error is
  retained: on an empty buffer it passes them to the underlying writer directly, otherwise
  it fills the buffer and flushes it. \<open>nn\<close> is the count so far. An underlying writer
  that keeps answering \<^verbatim>\<open>(0, nil)\<close> keeps the loop running for ever, so the loop is a
  partial function.
\<close>

partial_function (option) bufio_Write_loop ::
  "'st bufio_Writer \<Rightarrow> string \<Rightarrow> int \<Rightarrow> 'st
     \<Rightarrow> ((int \<times> error option) \<times> 'st bufio_Writer \<times> 'st) outcome option"
where
  "bufio_Write_loop b p nn st =
     (if int (length p) > Available b \<and> bw_err b = None then
        (if Buffered b = 0 then
           (case Writer_Write (bw_wr b) p st of
              ((n, err), st') \<Rightarrow>
                (case slice p n (int (length p)) of
                   Panics pn \<Rightarrow> Some (Panics pn)
                 | Returns p' \<Rightarrow> bufio_Write_loop (b\<lparr>bw_err := err\<rparr>) p' (nn + n) st'))
         else
           (case slice (bw_buf b) (bw_n b) (int (length (bw_buf b))) of
              Panics pn \<Rightarrow> Some (Panics pn)
            | Returns dst \<Rightarrow>
                (case copy_at (bw_buf b) (bw_n b) p of
                   (buf', n) \<Rightarrow>
                     (case Flush (b\<lparr>bw_buf := buf', bw_n := bw_n b + n\<rparr>) st of
                        Panics pn \<Rightarrow> Some (Panics pn)
                      | Returns (e, b', st') \<Rightarrow>
                          (case slice p n (int (length p)) of
                             Panics pn \<Rightarrow> Some (Panics pn)
                           | Returns p' \<Rightarrow> bufio_Write_loop b' p' (nn + n) st')))))
      else if bw_err b \<noteq> None then Some (Returns ((nn, bw_err b), b, st))
      else
        (case slice (bw_buf b) (bw_n b) (int (length (bw_buf b))) of
           Panics pn \<Rightarrow> Some (Panics pn)
         | Returns dst \<Rightarrow>
             (case copy_at (bw_buf b) (bw_n b) p of
                (buf', n) \<Rightarrow>
                  Some (Returns ((nn + n, None),
                    b\<lparr>bw_buf := buf', bw_n := bw_n b + n\<rparr>, st)))))"

definition bufio_Write ::
  "'st bufio_Writer \<Rightarrow> string \<Rightarrow> 'st
     \<Rightarrow> ((int \<times> error option) \<times> 'st bufio_Writer \<times> 'st) outcome option" where
  "bufio_Write b p st = bufio_Write_loop b p 0 st"

section \<open>The buffering wrapper\<close>

text \<open>
  Modelled from the spec: \<^verbatim>\<open>time.Ticker\<close> of Go's standard library is not part of
  this repository; the spec calls it the wrapper's "repeating timer". A ticker has the
  period it was made with, in nanoseconds, and is active until it is stopped.
  \<^verbatim>\<open>time.NewTicker\<close> panics on a duration that is not positive.

  The channel \<^verbatim>\<open>stop\<close> carries no value: it is open, or it has been closed. The
  mutex of the struct is left out, as for \<open>lockedWriteSyncer\<close>, and so is the goroutine
  that \<^verbatim>\<open>Buffer\<close> starts: when it runs is a matter of real time.
\<close>

datatype chan = Open | Closed

record Ticker =
  period :: int
  active :: bool

definition Second :: int where
  "Second = 1000000000"

definition NewTicker :: "int \<Rightarrow> Ticker outcome" where
  "NewTicker d =
     (if d \<le> 0 then Panics NonPositiveInterval else Returns \<lparr>period = d, active = True\<rparr>)"

definition Ticker_Stop :: "Ticker \<Rightarrow> Ticker" where
  "Ticker_Stop t = t\<lparr>active := False\<rparr>"

record 'st bufferWriterSyncer =
  stop :: chan
  bufferWriter :: "'st bufio_Writer"
  ticker :: Ticker

definition defaultBufferSize :: int where
  "defaultBufferSize = 256 * 1024"

definition defaultFlushInterval :: int where
  "defaultFlushInterval = 30 * Second"

definition Buffer :: "'st WriteSyncer \<Rightarrow> int \<Rightarrow> int \<Rightarrow> 'st bufferWriterSyncer outcome" where
  "Buffer ws bufferSize flushInterval =
     (let bufferSize = (if bufferSize = 0 then defaultBufferSize else bufferSize);
          flushInterval = (if flushInterval = 0 then defaultFlushInterval else flushInterval)
      in (case NewTicker flushInterval of
            Panics pn \<Rightarrow> Panics pn
          | Returns t \<Rightarrow>
              Returns \<lparr>stop = Open,
                       bufferWriter = NewWriterSize (Syncer ws) bufferSize,
                       ticker = t\<rparr>))"

text \<open>
  The methods of \<^verbatim>\<open>*bufferWriterSyncer\<close> change the struct they point to, so they
  take it and return it. They may panic, and the write may not return, so they have
  outcomes where the methods of the sinks above have results. \<open>with_bufferWriter\<close>
  stores the buffered writer that a call of the library has left.
\<close>

fun with_bufferWriter ::
  "'st bufferWriterSyncer \<Rightarrow> ('a \<times> 'st bufio_Writer \<times> 'st) outcome
     \<Rightarrow> ('a \<times> 'st bufferWriterSyncer \<times> 'st) outcome" where
  "with_bufferWriter s (Panics pn) = Panics pn"
| "with_bufferWriter s (Returns (r, b, st)) = Returns (r, s\<lparr>bufferWriter := b\<rparr>, st)"

definition bufferWriterSyncer_Write ::
  "'st bufferWriterSyncer \<Rightarrow> string \<Rightarrow> 'st
     \<Rightarrow> ((int \<times> error option) \<times> 'st bufferWriterSyncer \<times> 'st) outcome option" where
  "bufferWriterSyncer_Write s bs st =
     (if int (length bs) > Available (bufferWriter s) \<and> Buffered (bufferWriter s) > 0 then
        (case Flush (bufferWriter s) st of
           Panics pn \<Rightarrow> Some (Panics pn)
         | Returns (err, b, st') \<Rightarrow>
             (case err of
                Some e \<Rightarrow> Some (Returns ((0, Some e), s\<lparr>bufferWriter := b\<rparr>, st'))
              | None \<Rightarrow>
                  map_option (with_bufferWriter (s\<lparr>bufferWriter := b\<rparr>))
                    (bufio_Write b bs st')))
      else map_option (with_bufferWriter s) (bufio_Write (bufferWriter s) bs st))"

definition bufferWriterSyncer_Sync ::
  "'st bufferWriterSyncer \<Rightarrow> 'st \<Rightarrow> (error option \<times> 'st bufferWriterSyncer \<times> 'st) outcome" where
  "bufferWriterSyncer_Sync s st = with_bufferWriter s (Flush (bufferWriter s) st)"

definition bufferWriterSyncer_close ::
  "'st bufferWriterSyncer \<Rightarrow> 'st \<Rightarrow> (error option \<times> 'st bufferWriterSyncer \<times> 'st) outcome" where
  "bufferWriterSyncer_close s st =
     (let s1 = s\<lparr>ticker := Ticker_Stop (ticker s)\<rparr>
      in (case stop s1 of
            Closed \<Rightarrow> Panics CloseOfClosedChannel
          | Open \<Rightarrow> bufferWriterSyncer_Sync (s1\<lparr>stop := Closed\<rparr>) st))"

section \<open>What the properties are stated with\<close>

text \<open>
  \<open>spec_Write_each\<close> and \<open>spec_Sync_each\<close> are the spec's "every sink in sequence
  order regardless of earlier failures": the call on each sink of the sequence, each in
  the world the call before it has left, with what each call returned.
  \<open>spec_aggregate\<close> is the spec's combined error of a sequence of returned errors.
\<close>

fun spec_Write_each ::
  "'st WriteSyncer list \<Rightarrow> string \<Rightarrow> 'st \<Rightarrow> (int \<times> error option) list \<times> 'st" where
  "spec_Write_each [] p st = ([], st)"
| "spec_Write_each (w # ws) p st =
     (case Write w p st of (r, st') \<Rightarrow>
        (case spec_Write_each ws p st' of (rs, st'') \<Rightarrow> (r # rs, st'')))"

fun spec_Sync_each :: "'st WriteSyncer list \<Rightarrow> 'st \<Rightarrow> error option list \<times> 'st" where
  "spec_Sync_each [] st = ([], st)"
| "spec_Sync_each (w # ws) st =
     (case Sync w st of (e, st') \<Rightarrow>
        (case spec_Sync_each ws st' of (es, st'') \<Rightarrow> (e # es, st'')))"

definition spec_aggregate :: "error option list \<Rightarrow> error option" where
  "spec_aggregate es = foldl Append None es"

text \<open>
  The spec's tie-break policy for the byte count, on the counts the sinks report in
  sequence order: "take the first non-zero count seen; thereafter, if any subsequent sink
  reports a smaller count, that smaller value becomes the new reported count".
  \<open>nWritten_step\<close> is one round of the loop of \<^verbatim>\<open>multiWriteSyncer.Write\<close> on its
  variable \<^verbatim>\<open>nWritten\<close>.
\<close>

fun spec_shrink :: "int \<Rightarrow> int list \<Rightarrow> int" where
  "spec_shrink cur [] = cur"
| "spec_shrink cur (n # ns) = spec_shrink (if n < cur then n else cur) ns"

fun spec_count :: "int list \<Rightarrow> int" where
  "spec_count [] = 0"
| "spec_count (n # ns) = (if n \<noteq> 0 then spec_shrink n ns else spec_count ns)"

definition nWritten_step :: "int \<Rightarrow> int \<Rightarrow> int" where
  "nWritten_step nWritten n =
     (if nWritten = 0 \<and> n \<noteq> 0 then n else if n < nWritten then n else nWritten)"

text \<open>
  \<open>buffered\<close> are the bytes a buffered writer holds. The destinations of the examples
  live in a world that is the list of the calls made so far: \<open>double i n werr serr\<close> is
  destination \<open>i\<close>, which reports the count \<open>n\<close> and the error \<open>werr\<close> for every write
  and \<open>serr\<close> for every flush; \<open>recorder i\<close> accepts every write in full.
\<close>

definition buffered :: "'st bufio_Writer \<Rightarrow> string" where
  "buffered b = take (nat (bw_n b)) (bw_buf b)"

datatype event = Wrote nat string | Synced nat

definition double :: "nat \<Rightarrow> int \<Rightarrow> error option \<Rightarrow> error option \<Rightarrow> event list WriteSyncer" where
  "double i n werr serr =
     Foreign (\<lambda>bs log. ((n, werr), log @ [Wrote i bs])) (\<lambda>log. (serr, log @ [Synced i]))"

definition recorder :: "nat \<Rightarrow> event list WriteSyncer" where
  "recorder i =
     Foreign (\<lambda>bs log. ((int (length bs), None), log @ [Wrote i bs]))
       (\<lambda>log. (None, log @ [Synced i]))"

text \<open>
  \<open>holding ws cap bytes\<close> is the wrapper that \<^verbatim>\<open>Buffer\<close> makes for the sink \<open>ws\<close>
  with a buffer of \<open>cap\<close> bytes and the default interval, once \<open>bytes\<close> have been
  buffered. \<open>effective_bufferSize\<close> and \<open>effective_flushInterval\<close> read the capacity of
  the buffer and the period of the ticker off the result of \<^verbatim>\<open>Buffer\<close>; there is
  none when the constructor has panicked.
\<close>

definition holding :: "'st WriteSyncer \<Rightarrow> nat \<Rightarrow> string \<Rightarrow> 'st bufferWriterSyncer" where
  "holding ws cap bytes =
     \<lparr>stop = Open,
      bufferWriter =
        \<lparr>bw_err = None,
         bw_buf = bytes @ replicate (cap - length bytes) (CHR 0x00),
         bw_n = int (length bytes),
         bw_wr = Syncer ws\<rparr>,
      ticker = \<lparr>period = defaultFlushInterval, active = True\<rparr>\<rparr>"



section \<open>Aggregated errors\<close>

lemma Errors_Append: "Errors (Append l r) = Errors l @ Errors r"
  by (cases l; cases r) (simp_all add: Append_def)

lemma Append_eq_None: "Append l r = None \<longleftrightarrow> l = None \<and> r = None"
  by (cases l; cases r) (simp_all add: Append_def)

lemma Errors_foldl_Append: "Errors (foldl Append e es) = Errors e @ concat (map Errors es)"
  by (induction es arbitrary: e) (simp_all add: Errors_Append)

lemma foldl_Append_eq_None:
  "foldl Append e es = None \<longleftrightarrow> e = None \<and> list_all (\<lambda>x. x = None) es"
  by (induction es arbitrary: e) (auto simp: Append_eq_None)

section \<open>The fan-out wrapper\<close>

text \<open>
  The loops of \<^verbatim>\<open>multiWriteSyncer\<close> call every sink, in order, whatever the calls
  before returned: what they compute is a fold over the results of \<open>spec_Write_each\<close>
  and \<open>spec_Sync_each\<close>.
\<close>

lemma multiWrite_loop_each:
  "multiWrite_loop ws p e n st =
     ((foldl nWritten_step n (map fst (fst (spec_Write_each ws p st))),
       foldl Append e (map snd (fst (spec_Write_each ws p st)))),
      snd (spec_Write_each ws p st))"
  by (induction ws arbitrary: e n st) (simp_all add: nWritten_step_def split: prod.splits)

lemma multiSync_loop_each:
  "multiSync_loop ws e st =
     (foldl Append e (fst (spec_Sync_each ws st)), snd (spec_Sync_each ws st))"
  by (induction ws arbitrary: e st) (simp_all split: prod.splits)

lemma length_spec_Write_each: "length (fst (spec_Write_each ws p st)) = length ws"
proof (induction ws arbitrary: st)
  case Nil
  show ?case by simp
next
  case (Cons w ws)
  obtain r st' where w: "Write w p st = (r, st')"
    by (cases "Write w p st")
  obtain rs st'' where ws: "spec_Write_each ws p st' = (rs, st'')"
    by (cases "spec_Write_each ws p st'")
  from Cons.IH [of st'] ws have "length rs = length ws"
    by simp
  with w ws show ?case
    by simp
qed

lemma length_spec_Sync_each: "length (fst (spec_Sync_each ws st)) = length ws"
proof (induction ws arbitrary: st)
  case Nil
  show ?case by simp
next
  case (Cons w ws)
  obtain e st' where w: "Sync w st = (e, st')"
    by (cases "Sync w st")
  obtain es st'' where ws: "spec_Sync_each ws st' = (es, st'')"
    by (cases "spec_Sync_each ws st'")
  from Cons.IH [of st'] ws have "length es = length ws"
    by simp
  with w ws show ?case
    by simp
qed

text \<open>
  The count of the loop and the spec's policy agree on every sequence of counts in which
  no 0 follows the first count that is not 0.
\<close>

lemma foldl_nWritten_step_shrink:
  "cur \<noteq> 0 \<Longrightarrow> 0 \<notin> set ns \<Longrightarrow> foldl nWritten_step cur ns = spec_shrink cur ns"
  by (induction ns arbitrary: cur) (auto simp: nWritten_step_def)

lemma foldl_nWritten_step_spec_count:
  "0 \<notin> set (dropWhile (\<lambda>n. n = 0) ns) \<Longrightarrow> foldl nWritten_step 0 ns = spec_count ns"
  by (induction ns) (auto simp: nWritten_step_def foldl_nWritten_step_shrink)

lemma multiWrite_count_spec:
  assumes "0 \<notin> set (dropWhile (\<lambda>n. n = 0) (map fst (fst (spec_Write_each ws p st))))"
  shows "fst (fst (Write (multiWriteSyncer ws) p st))
     = spec_count (map fst (fst (spec_Write_each ws p st)))"
  using assms by (simp add: multiWrite_loop_each foldl_nWritten_step_spec_count)

text \<open>
  Claim C1 (the count of a fan-out write follows the policy: the first count that is
  not 0, and from then on every smaller count, 0 included). The loop does not do that
  once a sink has reported 0 after a larger count: the 0 is taken, and then stands for "no
  count yet", so the next count that is not 0 replaces it. Three destinations that report
  5, 0 and 3 for the five bytes \<open>''hello''\<close> are all written to, and the count returned
  is 3, where the policy gives 0, the smallest count.
\<close>

theorem multiWrite_count_after_zero:
  "Write (NewMultiWriteSyncer
      [double 0 5 None None, double 1 0 (Some (Err ''closed'')) None,
       double 2 3 (Some ErrShortWrite) None]) ''hello'' []
    = ((3, Some (multiError [Err ''closed'', ErrShortWrite])),
       [Wrote 0 ''hello'', Wrote 1 ''hello'', Wrote 2 ''hello''])
   \<and> spec_count [5, 0, 3] = 0"
  by (simp add: NewMultiWriteSyncer_def double_def Append_def)

text \<open>
  Claim C3 (a fan-out write over two or more sinks calls every sink in sequence order,
  also after a sink has returned an error, and the error returned aggregates the errors of
  all sinks and loses none): the world after the write is the world after the calls of
  \<open>spec_Write_each\<close>, one per sink; the error returned is the aggregate of the errors
  these calls returned, and stands for exactly their errors, in order. In particular, when
  the write of \<open>sinkA\<close> returns \<open>(4, nil)\<close> and then the write of \<open>sinkB\<close> returns
  \<open>(4, errX)\<close>, the combined write returns 4 and the aggregate of \<open>errX\<close>.
\<close>

theorem multiWrite_no_short_circuit:
  assumes "2 \<le> length ws"
  shows "snd (Write (NewMultiWriteSyncer ws) p st) = snd (spec_Write_each ws p st)
    \<and> length (fst (spec_Write_each ws p st)) = length ws
    \<and> snd (fst (Write (NewMultiWriteSyncer ws) p st))
        = spec_aggregate (map snd (fst (spec_Write_each ws p st)))
    \<and> Errors (snd (fst (Write (NewMultiWriteSyncer ws) p st)))
        = concat (map (Errors \<circ> snd) (fst (spec_Write_each ws p st)))
    \<and> (Write sinkA q s0 = ((4, None), s1) \<and> Write sinkB q s1 = ((4, Some errX), s2)
        \<longrightarrow> Write (NewMultiWriteSyncer [sinkA, sinkB]) q s0
              = ((4, spec_aggregate [None, Some errX]), s2)
          \<and> spec_aggregate [None, Some errX] = Some errX)"
proof -
  from assms have "NewMultiWriteSyncer ws = multiWriteSyncer ws"
    by (simp add: NewMultiWriteSyncer_def)
  then show ?thesis
    by (simp add: multiWrite_loop_each spec_aggregate_def length_spec_Write_each
        Errors_foldl_Append NewMultiWriteSyncer_def Append_def nWritten_step_def comp_def)
qed

theorem multiWrite_no_short_circuit_witness:
  "2 \<le> length [double 0 4 None None, double 1 4 (Some (Err ''errX'')) None]
   \<and> Write (double 0 4 None None) ''test'' [] = ((4, None), [Wrote 0 ''test''])
   \<and> Write (double 1 4 (Some (Err ''errX'')) None) ''test'' [Wrote 0 ''test'']
       = ((4, Some (Err ''errX'')), [Wrote 0 ''test'', Wrote 1 ''test''])
   \<and> Write (NewMultiWriteSyncer [double 0 4 None None, double 1 4 (Some (Err ''errX'')) None])
        ''test'' []
       = ((4, Some (Err ''errX'')), [Wrote 0 ''test'', Wrote 1 ''test''])
   \<and> map snd (fst (spec_Write_each
        [double 0 4 None None, double 1 4 (Some (Err ''errX'')) None] ''test'' []))
       = [None, Some (Err ''errX'')]
   \<and> 2 \<le> length [double 0 0 (Some (Err ''first'')) None, double 1 4 None None,
        double 2 4 (Some (Err ''third'')) None]
   \<and> Write (NewMultiWriteSyncer [double 0 0 (Some (Err ''first'')) None, double 1 4 None None,
        double 2 4 (Some (Err ''third'')) None]) ''test'' []
       = ((4, Some (multiError [Err ''first'', Err ''third''])),
          [Wrote 0 ''test'', Wrote 1 ''test'', Wrote 2 ''test''])"
  using multiWrite_no_short_circuit
    [of "[double 0 4 None None, double 1 4 (Some (Err ''errX'')) None]" "''test''" "[]"
      "double 0 4 None None" "''test''" "[]" "[Wrote 0 ''test'']"
      "double 1 4 (Some (Err ''errX'')) None" "Err ''errX''"
      "[Wrote 0 ''test'', Wrote 1 ''test'']"]
    multiWrite_no_short_circuit
    [of "[double 0 0 (Some (Err ''first'')) None, double 1 4 None None,
          double 2 4 (Some (Err ''third'')) None]" "''test''" "[]"
      "double 0 4 None None" "''test''" "[]" "[Wrote 0 ''test'']"
      "double 1 4 (Some (Err ''errX'')) None" "Err ''errX''"
      "[Wrote 0 ''test'', Wrote 1 ''test'']"]
  by (simp add: double_def spec_aggregate_def Append_def NewMultiWriteSyncer_def)

text \<open>
  Claim C7 (a fan-out flush over two or more sinks flushes every sink in sequence order
  unconditionally, aggregates all errors, and returns no error if and only if every flush
  returned none): the world after the flush is the world after the calls of
  \<open>spec_Sync_each\<close>, one per sink; the error returned is the aggregate of the errors
  these calls returned, stands for exactly their errors, and is \<^verbatim>\<open>nil\<close> exactly when
  all of them are.
\<close>

theorem multiSync_no_short_circuit:
  assumes "2 \<le> length ws"
  shows "snd (Sync (NewMultiWriteSyncer ws) st) = snd (spec_Sync_each ws st)
    \<and> length (fst (spec_Sync_each ws st)) = length ws
    \<and> fst (Sync (NewMultiWriteSyncer ws) st) = spec_aggregate (fst (spec_Sync_each ws st))
    \<and> Errors (fst (Sync (NewMultiWriteSyncer ws) st))
        = concat (map Errors (fst (spec_Sync_each ws st)))
    \<and> (fst (Sync (NewMultiWriteSyncer ws) st) = None
         \<longleftrightarrow> list_all (\<lambda>e. e = None) (fst (spec_Sync_each ws st)))"
proof -
  from assms have "NewMultiWriteSyncer ws = multiWriteSyncer ws"
    by (simp add: NewMultiWriteSyncer_def)
  then show ?thesis
    by (simp add: multiSync_loop_each spec_aggregate_def length_spec_Sync_each
        Errors_foldl_Append foldl_Append_eq_None)
qed

theorem multiSync_no_short_circuit_witness:
  "2 \<le> length [double 0 4 None None, double 1 4 None (Some (Err ''sync'')), double 2 4 None None]
   \<and> Sync (NewMultiWriteSyncer
        [double 0 4 None None, double 1 4 None (Some (Err ''sync'')), double 2 4 None None]) []
      = (Some (Err ''sync''), [Synced 0, Synced 1, Synced 2])
   \<and> fst (spec_Sync_each
        [double 0 4 None None, double 1 4 None (Some (Err ''sync'')), double 2 4 None None] [])
      = [None, Some (Err ''sync''), None]"
  using multiSync_no_short_circuit
    [of "[double 0 4 None None, double 1 4 None (Some (Err ''sync'')), double 2 4 None None]" "[]"]
  by (simp add: double_def spec_aggregate_def Append_def NewMultiWriteSyncer_def)

text \<open>
  Claim C10 (for the empty sequence of sinks the fan-out constructor still returns a
  sink: its write returns the count 0 and no error for every input, and its flush returns
  no error): the constructor returns the empty \<open>multiWriteSyncer\<close>, whose loops run no
  round and leave the world as it is.
\<close>

theorem NewMultiWriteSyncer_empty:
  "NewMultiWriteSyncer [] = multiWriteSyncer []
   \<and> Write (NewMultiWriteSyncer []) p st = ((0, None), st)
   \<and> Sync (NewMultiWriteSyncer []) st = (None, st)"
  by (simp add: NewMultiWriteSyncer_def)

section \<open>The sink adapter and the exclusive-access wrapper\<close>

text \<open>
  Claim C5 (locking a locked sink returns the same wrapper, the same reference, so no
  nested lock is created): \<open>Lock\<close> on the result of \<open>Lock\<close>, in the heap that the
  first call has left, returns the very pointer of the first call and allocates nothing.
\<close>

theorem Lock_Lock: "Lock (fst (Lock s h)) (snd (Lock s h)) = Lock s h"
  by (cases s) simp_all

text \<open>
  Claim C6 (adapting is idempotent; a writer that has a flush already is returned
  unchanged; otherwise the flush of the adapted sink does nothing and returns no error):
  adapting an adapted writer returns it as it is, a \<^verbatim>\<open>WriteSyncer\<close> is returned as
  the same value, and the sink made from a plain writer flushes without touching the world
  and writes as the plain writer does.
\<close>

theorem AddSync_idempotent:
  "AddSync (Syncer (AddSync w)) = AddSync w
   \<and> AddSync (Syncer s) = s
   \<and> Sync (AddSync (Plain f)) st = (None, st)
   \<and> Write (AddSync (Plain f)) bs st = f bs st"
  by (cases w) simp_all

section \<open>The buffered writer\<close>

text \<open>
  A flush of a buffer that holds bytes and retains no error is one write of the buffered
  bytes to the underlying writer.
\<close>

lemma Flush_write:
  assumes "0 < bw_n b" "bw_n b \<le> int (length (bw_buf b))" "bw_err b = None"
  shows "Flush b st =
     (case Writer_Write (bw_wr b) (buffered b) st of
        ((n, err), st') \<Rightarrow>
          (case (if n < bw_n b \<and> err = None then Some ErrShortWrite else err) of
             Some e \<Rightarrow>
               Returns (Some e,
                 b\<lparr>bw_buf :=
                     (if 0 < n \<and> n < bw_n b
                      then fst (copy_at (bw_buf b) 0
                             (take (nat (bw_n b - n)) (drop (nat n) (bw_buf b))))
                      else bw_buf b),
                   bw_n := bw_n b - n,
                   bw_err := Some e\<rparr>,
                 st')
           | None \<Rightarrow> Returns (None, b\<lparr>bw_n := 0\<rparr>, st')))"
  using assms by (simp add: Flush_def slice_def buffered_def)

lemma Flush_ok:
  assumes "0 < bw_n b" "bw_n b \<le> int (length (bw_buf b))" "bw_err b = None"
    and "Writer_Write (bw_wr b) (buffered b) st = ((bw_n b, None), st1)"
  shows "Flush b st = Returns (None, b\<lparr>bw_n := 0\<rparr>, st1)"
  using assms by (simp add: Flush_write)

text \<open>
  Whatever a flush returns, the bytes it leaves in the buffer are bytes that were there
  before, provided the underlying writer reports a count that is not negative.
\<close>

lemma Flush_keeps_suffix:
  assumes "0 \<le> bw_n b" "bw_n b \<le> int (length (bw_buf b))"
    and "0 \<le> fst (fst (Writer_Write (bw_wr b) (buffered b) st))"
    and "Flush b st = Returns (e, b', st')"
  shows "\<exists>k. buffered b' = drop k (buffered b)"
proof (cases "bw_err b = None \<and> bw_n b \<noteq> 0")
  case False
  with assms(4) have "b' = b"
    by (auto simp: Flush_def split: if_splits)
  then have "buffered b' = drop 0 (buffered b)"
    by simp
  then show ?thesis ..
next
  case True
  obtain n err st1 where w: "Writer_Write (bw_wr b) (buffered b) st = ((n, err), st1)"
    by (cases "Writer_Write (bw_wr b) (buffered b) st") auto
  with assms(3) have n: "0 \<le> n"
    by simp
  from True assms(1) have pos: "0 < bw_n b"
    by simp
  from assms(2) pos have len: "nat (bw_n b) \<le> length (bw_buf b)"
    by simp
  from n pos have nd: "nat (bw_n b - n) = nat (bw_n b) - nat n"
    by (simp add: nat_diff_distrib')
  from assms(4) w pos assms(2) True
  have "buffered b' = drop (nat n) (buffered b)"
    unfolding Flush_write [OF pos assms(2) conjunct1 [OF True]]
    by (auto simp: buffered_def copy_at_def Let_def drop_take nd len min_absorb2
        split: if_splits option.splits)
  then show ?thesis ..
qed

text \<open>
  Bytes that fit are copied behind the buffered ones and the underlying writer is not
  called. Bytes that do not fit into an empty buffer go to the underlying writer in one
  call, and when it takes them all the loop ends with what that call returned.
\<close>

lemma bufio_Write_fits:
  assumes "0 \<le> bw_n b" "int (length p) \<le> Available b" "bw_err b = None"
  shows "bufio_Write_loop b p nn st =
     Some (Returns ((nn + int (length p), None),
       b\<lparr>bw_buf := take (nat (bw_n b)) (bw_buf b) @ p
                    @ drop (nat (bw_n b) + length p) (bw_buf b),
         bw_n := bw_n b + int (length p)\<rparr>, st))"
  using assms
  by (subst bufio_Write_loop.simps)
    (auto simp: Available_def slice_def copy_at_def min_def Let_def)

lemma buffered_fits:
  assumes "0 \<le> bw_n b" "int (length p) \<le> Available b"
  shows "buffered (b\<lparr>bw_buf := take (nat (bw_n b)) (bw_buf b) @ p
                         @ drop (nat (bw_n b) + length p) (bw_buf b),
                      bw_n := bw_n b + int (length p)\<rparr>) = buffered b @ p"
proof -
  from assms have "nat (bw_n b) \<le> length (bw_buf b)"
    by (simp add: Available_def)
  with assms show ?thesis
    by (simp add: buffered_def Available_def nat_add_distrib)
qed

lemma bufio_Write_direct:
  assumes "bw_n b = 0" "int (length p) > Available b" "bw_err b = None"
    and "Writer_Write (bw_wr b) p st = ((int (length p), e), st1)"
  shows "bufio_Write_loop b p nn st
     = Some (Returns ((nn + int (length p), e), b\<lparr>bw_err := e\<rparr>, st1))"
  using assms
  apply (subst bufio_Write_loop.simps)
  apply (simp add: Available_def Buffered_def slice_def)
  apply (subst bufio_Write_loop.simps)
  apply (auto simp: Available_def Buffered_def slice_def copy_at_def Let_def)
  done

section \<open>The buffering wrapper\<close>

text \<open>
  The states \<open>holding\<close> are the ones the wrapper reaches: \<^verbatim>\<open>Buffer\<close> returns the
  one that holds nothing, and a write of bytes that fit leads from there to the one that
  holds these bytes, with nothing written to the sink.
\<close>

lemma Buffer_holding:
  "0 < cap \<Longrightarrow> Buffer ws (int cap) 0 = Returns (holding ws cap [])"
  by (simp add: Buffer_def NewTicker_def NewWriterSize_def holding_def
      defaultFlushInterval_def Second_def)

lemma holding_Write:
  assumes "length bytes \<le> cap"
  shows "bufferWriterSyncer_Write (holding ws cap []) bytes st
     = Some (Returns ((int (length bytes), None), holding ws cap bytes, st))"
proof -
  let ?b = "bufferWriter (holding ws cap [])"
  from assms have fits: "int (length bytes) \<le> Available ?b"
    by (simp add: holding_def Available_def)
  have "bufio_Write_loop ?b bytes 0 st
      = Some (Returns ((int (length bytes), None), bufferWriter (holding ws cap bytes), st))"
    using fits by (subst bufio_Write_fits) (simp_all add: holding_def)
  with fits show ?thesis
    by (simp add: bufferWriterSyncer_Write_def bufio_Write_def holding_def)
qed

text \<open>
  Claim C2 (a write to the buffering wrapper whose bytes exceed the room left in a buffer
  that is not empty flushes the buffered bytes to the inner sink first and only then
  appends the incoming ones; when the buffer is empty or the bytes fit there is no
  pre-flush; with a buffer of 10 bytes, writing \<open>''12345''\<close> and then
  \<open>''1234567890ABC''\<close> makes the destination receive \<open>''12345''\<close> first and then
  \<open>''1234567890ABC''\<close> directly). The write is a flush followed, when the flush returns
  no error, by the write of the buffered writer in the state the flush has left; and it is
  the write of the buffered writer alone when the condition of the pre-flush fails. On a
  well-formed buffer that retains no error, over a sink that accepts what it is given:
  bytes that fit are appended and nothing reaches the sink; bytes that do not fit into an
  empty buffer reach the sink in one write; and on a buffer that is not empty the sink
  first receives the buffered bytes, after which the incoming bytes are buffered if the
  empty buffer can hold them and are written in one write if not.
\<close>

theorem bufferWriterSyncer_Write_preflush:
  fixes s :: "'st bufferWriterSyncer"
  shows
    "(int (length bs) > Available (bufferWriter s) \<and> Buffered (bufferWriter s) > 0 \<longrightarrow>
        bufferWriterSyncer_Write s bs st =
          (case Flush (bufferWriter s) st of
             Panics pn \<Rightarrow> Some (Panics pn)
           | Returns (err, b, st') \<Rightarrow>
               (case err of
                  Some e \<Rightarrow> Some (Returns ((0, Some e), s\<lparr>bufferWriter := b\<rparr>, st'))
                | None \<Rightarrow>
                    map_option (with_bufferWriter (s\<lparr>bufferWriter := b\<rparr>))
                      (bufio_Write b bs st'))))
   \<and> (int (length bs) \<le> Available (bufferWriter s) \<or> Buffered (bufferWriter s) \<le> 0 \<longrightarrow>
        bufferWriterSyncer_Write s bs st
          = map_option (with_bufferWriter s) (bufio_Write (bufferWriter s) bs st))
   \<and> (0 \<le> bw_n (bufferWriter s)
        \<and> bw_n (bufferWriter s) \<le> int (length (bw_buf (bufferWriter s)))
        \<and> bw_err (bufferWriter s) = None \<longrightarrow>
        (int (length bs) \<le> Available (bufferWriter s) \<longrightarrow>
           (\<exists>s'. bufferWriterSyncer_Write s bs st
                   = Some (Returns ((int (length bs), None), s', st))
              \<and> buffered (bufferWriter s') = buffered (bufferWriter s) @ bs))
      \<and> (Buffered (bufferWriter s) = 0 \<and> int (length bs) > Available (bufferWriter s)
           \<and> Writer_Write (bw_wr (bufferWriter s)) bs st
               = ((int (length bs), None), st_written) \<longrightarrow>
           bufferWriterSyncer_Write s bs st
             = Some (Returns ((int (length bs), None), s, st_written)))
      \<and> (Buffered (bufferWriter s) > 0 \<and> int (length bs) > Available (bufferWriter s)
           \<and> Writer_Write (bw_wr (bufferWriter s)) (buffered (bufferWriter s)) st
               = ((Buffered (bufferWriter s), None), st_flushed) \<longrightarrow>
           (int (length bs) \<le> int (length (bw_buf (bufferWriter s))) \<longrightarrow>
              (\<exists>s'. bufferWriterSyncer_Write s bs st
                      = Some (Returns ((int (length bs), None), s', st_flushed))
                 \<and> buffered (bufferWriter s') = bs))
         \<and> (int (length bs) > int (length (bw_buf (bufferWriter s)))
              \<and> Writer_Write (bw_wr (bufferWriter s)) bs st_flushed
                  = ((int (length bs), None), st_written) \<longrightarrow>
              (\<exists>s'. bufferWriterSyncer_Write s bs st
                      = Some (Returns ((int (length bs), None), s', st_written))
                 \<and> buffered (bufferWriter s') = []))))
   \<and> (\<exists>s0 s1 s2. Buffer (recorder 0) 10 0 = Returns s0
        \<and> bufferWriterSyncer_Write s0 ''12345'' [] = Some (Returns ((5, None), s1, []))
        \<and> buffered (bufferWriter s1) = ''12345''
        \<and> bufferWriterSyncer_Write s1 ''1234567890ABC'' []
            = Some (Returns ((13, None), s2, [Wrote 0 ''12345'', Wrote 0 ''1234567890ABC'']))
        \<and> buffered (bufferWriter s2) = [])"
    (is "?pre \<and> ?nopre \<and> (?wf \<longrightarrow> ?fits \<and> ?direct \<and> ?flushed) \<and> ?scenario")
proof (intro conjI)
  show ?pre
    by (simp add: bufferWriterSyncer_Write_def)
  show ?nopre
    by (auto simp: bufferWriterSyncer_Write_def)
  show "?wf \<longrightarrow> ?fits \<and> ?direct \<and> ?flushed"
  proof (intro impI conjI; (elim conjE)?)
    assume wf: "0 \<le> bw_n (bufferWriter s)"
      "bw_n (bufferWriter s) \<le> int (length (bw_buf (bufferWriter s)))"
      and noerr: "bw_err (bufferWriter s) = None"
    {
      assume fits: "int (length bs) \<le> Available (bufferWriter s)"
      then have "bufferWriterSyncer_Write s bs st
          = map_option (with_bufferWriter s) (bufio_Write (bufferWriter s) bs st)"
        by (simp add: bufferWriterSyncer_Write_def)
      with wf noerr fits
      show "\<exists>s'. bufferWriterSyncer_Write s bs st
                = Some (Returns ((int (length bs), None), s', st))
           \<and> buffered (bufferWriter s') = buffered (bufferWriter s) @ bs"
        by (simp add: bufio_Write_def bufio_Write_fits buffered_fits)
    next
      assume empty: "Buffered (bufferWriter s) = 0"
        and large: "int (length bs) > Available (bufferWriter s)"
        and w: "Writer_Write (bw_wr (bufferWriter s)) bs st
            = ((int (length bs), None), st_written)"
      from empty have "bufferWriterSyncer_Write s bs st
          = map_option (with_bufferWriter s) (bufio_Write (bufferWriter s) bs st)"
        by (simp add: bufferWriterSyncer_Write_def)
      with empty large w noerr
      show "bufferWriterSyncer_Write s bs st
          = Some (Returns ((int (length bs), None), s, st_written))"
        by (simp add: bufio_Write_def bufio_Write_direct [where e = None] Buffered_def)
    next
      assume held: "Buffered (bufferWriter s) > 0"
        and large: "int (length bs) > Available (bufferWriter s)"
        and w: "Writer_Write (bw_wr (bufferWriter s)) (buffered (bufferWriter s)) st
            = ((Buffered (bufferWriter s), None), st_flushed)"
      from held w wf noerr
      have fl: "Flush (bufferWriter s) st = Returns (None, (bufferWriter s)\<lparr>bw_n := 0\<rparr>, st_flushed)"
        by (simp add: Flush_ok Buffered_def)
      with held large
      have step: "bufferWriterSyncer_Write s bs st
          = map_option (with_bufferWriter (s\<lparr>bufferWriter := (bufferWriter s)\<lparr>bw_n := 0\<rparr>\<rparr>))
              (bufio_Write ((bufferWriter s)\<lparr>bw_n := 0\<rparr>) bs st_flushed)"
        by (simp add: bufferWriterSyncer_Write_def)
      {
        assume small: "int (length bs) \<le> int (length (bw_buf (bufferWriter s)))"
        with step noerr
        show "\<exists>s'. bufferWriterSyncer_Write s bs st
                  = Some (Returns ((int (length bs), None), s', st_flushed))
             \<and> buffered (bufferWriter s') = bs"
          by (simp add: bufio_Write_def bufio_Write_fits Available_def buffered_def)
      next
        assume big: "int (length bs) > int (length (bw_buf (bufferWriter s)))"
          and w2: "Writer_Write (bw_wr (bufferWriter s)) bs st_flushed = ((int (length bs), None), st_written)"
        with step noerr
        show "\<exists>s'. bufferWriterSyncer_Write s bs st
                  = Some (Returns ((int (length bs), None), s', st_written))
             \<and> buffered (bufferWriter s') = []"
          by (simp add: bufio_Write_def bufio_Write_direct [where e = None] Available_def
              buffered_def)
      }
    }
  qed
  show ?scenario
    by (simp add: Buffer_def NewTicker_def NewWriterSize_def bufferWriterSyncer_Write_def
        Available_def Buffered_def bufio_Write_def bufio_Write_loop.simps Flush_def slice_def
        copy_at_def recorder_def buffered_def defaultFlushInterval_def Second_def Let_def)
qed

theorem bufferWriterSyncer_Write_preflush_witness:
  "0 \<le> bw_n (bufferWriter (holding (recorder 0) 10 ''12345''))
   \<and> bw_n (bufferWriter (holding (recorder 0) 10 ''12345''))
       \<le> int (length (bw_buf (bufferWriter (holding (recorder 0) 10 ''12345''))))
   \<and> bw_err (bufferWriter (holding (recorder 0) 10 ''12345'')) = None
   \<and> Buffered (bufferWriter (holding (recorder 0) 10 ''12345'')) > 0
   \<and> int (length ''1234567890ABC'') > Available (bufferWriter (holding (recorder 0) 10 ''12345''))
   \<and> Writer_Write (bw_wr (bufferWriter (holding (recorder 0) 10 ''12345'')))
        (buffered (bufferWriter (holding (recorder 0) 10 ''12345''))) []
       = ((Buffered (bufferWriter (holding (recorder 0) 10 ''12345'')), None), [Wrote 0 ''12345''])
   \<and> int (length ''1234567890ABC'')
       > int (length (bw_buf (bufferWriter (holding (recorder 0) 10 ''12345''))))
   \<and> Writer_Write (bw_wr (bufferWriter (holding (recorder 0) 10 ''12345'')))
        ''1234567890ABC'' [Wrote 0 ''12345'']
       = ((int (length ''1234567890ABC''), None), [Wrote 0 ''12345'', Wrote 0 ''1234567890ABC''])
   \<and> (\<exists>s'. bufferWriterSyncer_Write (holding (recorder 0) 10 ''12345'') ''1234567890ABC'' []
          = Some (Returns ((13, None), s', [Wrote 0 ''12345'', Wrote 0 ''1234567890ABC'']))
        \<and> buffered (bufferWriter s') = [])
   \<and> int (length ''67890'') \<le> Available (bufferWriter (holding (recorder 0) 10 ''12345''))
   \<and> (\<exists>s'. bufferWriterSyncer_Write (holding (recorder 0) 10 ''12345'') ''67890'' []
          = Some (Returns ((5, None), s', []))
        \<and> buffered (bufferWriter s') = ''1234567890'')"
proof -
  let ?s = "holding (recorder 0) 10 ''12345'' :: event list bufferWriterSyncer"
  have wf: "0 \<le> bw_n (bufferWriter ?s)
      \<and> bw_n (bufferWriter ?s) \<le> int (length (bw_buf (bufferWriter ?s)))
      \<and> bw_err (bufferWriter ?s) = None"
    by (simp add: holding_def)
  have pre: "Buffered (bufferWriter ?s) > 0
      \<and> int (length ''1234567890ABC'') > Available (bufferWriter ?s)
      \<and> Writer_Write (bw_wr (bufferWriter ?s)) (buffered (bufferWriter ?s)) []
          = ((Buffered (bufferWriter ?s), None), [Wrote 0 ''12345''])"
    by (simp add: holding_def Buffered_def Available_def buffered_def recorder_def)
  have big: "int (length ''1234567890ABC'') > int (length (bw_buf (bufferWriter ?s)))
      \<and> Writer_Write (bw_wr (bufferWriter ?s)) ''1234567890ABC'' [Wrote 0 ''12345'']
          = ((int (length ''1234567890ABC''), None),
             [Wrote 0 ''12345'', Wrote 0 ''1234567890ABC''])"
    by (simp add: holding_def recorder_def)
  have fits: "int (length ''67890'') \<le> Available (bufferWriter ?s)"
    by (simp add: holding_def Available_def)
  note large = bufferWriterSyncer_Write_preflush
    [where s = ?s and bs = "''1234567890ABC''" and st = "[]"
       and st_flushed = "[Wrote 0 ''12345'']"
       and st_written = "[Wrote 0 ''12345'', Wrote 0 ''1234567890ABC'']",
     THEN conjunct2, THEN conjunct2, THEN conjunct1]
  note small = bufferWriterSyncer_Write_preflush
    [where s = ?s and bs = "''67890''" and st = "[]",
     THEN conjunct2, THEN conjunct2, THEN conjunct1]
  from large wf pre big
  have "\<exists>s'. bufferWriterSyncer_Write ?s ''1234567890ABC'' []
          = Some (Returns ((int (length ''1234567890ABC''), None), s',
              [Wrote 0 ''12345'', Wrote 0 ''1234567890ABC'']))
        \<and> buffered (bufferWriter s') = []"
    by blast
  then have r1: "\<exists>s'. bufferWriterSyncer_Write ?s ''1234567890ABC'' []
          = Some (Returns ((13, None), s', [Wrote 0 ''12345'', Wrote 0 ''1234567890ABC'']))
        \<and> buffered (bufferWriter s') = []"
    by simp
  from small wf fits
  have "\<exists>s'. bufferWriterSyncer_Write ?s ''67890'' []
          = Some (Returns ((int (length ''67890''), None), s', []))
        \<and> buffered (bufferWriter s') = buffered (bufferWriter ?s) @ ''67890''"
    by blast
  then have r2: "\<exists>s'. bufferWriterSyncer_Write ?s ''67890'' []
          = Some (Returns ((5, None), s', []))
        \<and> buffered (bufferWriter s') = ''1234567890''"
    by (simp add: holding_def buffered_def)
  from wf pre big fits r1 r2 show ?thesis
    by blast
qed

text \<open>
  Claim C9 (when the pre-flush inside the write of the buffering wrapper fails, the write
  returns the count 0 with the error of the flush, and the incoming bytes are not appended
  to the buffer): the write returns 0 and the error, and leaves the wrapper and the world
  as the failed flush has left them, whatever the incoming bytes are; the bytes then
  buffered are buffered bytes that the flush has not written.
\<close>

theorem bufferWriterSyncer_Write_preflush_fails:
  assumes "int (length bs) > Available (bufferWriter s)" "Buffered (bufferWriter s) > 0"
    and "Flush (bufferWriter s) st = Returns (Some e, b', st')"
  shows "bufferWriterSyncer_Write s bs st
      = Some (Returns ((0, Some e), s\<lparr>bufferWriter := b'\<rparr>, st'))
    \<and> (bw_n (bufferWriter s) \<le> int (length (bw_buf (bufferWriter s)))
         \<and> 0 \<le> fst (fst (Writer_Write (bw_wr (bufferWriter s)) (buffered (bufferWriter s)) st))
       \<longrightarrow> (\<exists>k. buffered b' = drop k (buffered (bufferWriter s))))"
proof (intro conjI impI)
  from assms show "bufferWriterSyncer_Write s bs st
      = Some (Returns ((0, Some e), s\<lparr>bufferWriter := b'\<rparr>, st'))"
    by (simp add: bufferWriterSyncer_Write_def)
next
  assume a: "bw_n (bufferWriter s) \<le> int (length (bw_buf (bufferWriter s)))
         \<and> 0 \<le> fst (fst (Writer_Write (bw_wr (bufferWriter s)) (buffered (bufferWriter s)) st))"
  from assms(2) have "0 \<le> bw_n (bufferWriter s)"
    by (simp add: Buffered_def)
  with a assms(3) show "\<exists>k. buffered b' = drop k (buffered (bufferWriter s))"
    using Flush_keeps_suffix [of "bufferWriter s" st "Some e" b' st'] by simp
qed

theorem bufferWriterSyncer_Write_preflush_fails_witness:
  "int (length ''1234567890ABC'')
      > Available (bufferWriter (holding (double 0 2 (Some (Err ''disk full'')) None) 10 ''12345''))
   \<and> Buffered (bufferWriter (holding (double 0 2 (Some (Err ''disk full'')) None) 10 ''12345'')) > 0
   \<and> bw_n (bufferWriter (holding (double 0 2 (Some (Err ''disk full'')) None) 10 ''12345''))
       \<le> int (length (bw_buf (bufferWriter
            (holding (double 0 2 (Some (Err ''disk full'')) None) 10 ''12345''))))
   \<and> 0 \<le> fst (fst (Writer_Write
        (bw_wr (bufferWriter (holding (double 0 2 (Some (Err ''disk full'')) None) 10 ''12345'')))
        (buffered (bufferWriter (holding (double 0 2 (Some (Err ''disk full'')) None) 10 ''12345'')))
        []))
   \<and> (\<exists>b'. Flush (bufferWriter (holding (double 0 2 (Some (Err ''disk full'')) None) 10 ''12345'')) []
          = Returns (Some (Err ''disk full''), b', [Wrote 0 ''12345''])
        \<and> bufferWriterSyncer_Write (holding (double 0 2 (Some (Err ''disk full'')) None) 10 ''12345'')
            ''1234567890ABC'' []
          = Some (Returns ((0, Some (Err ''disk full'')),
              (holding (double 0 2 (Some (Err ''disk full'')) None) 10 ''12345'')\<lparr>bufferWriter := b'\<rparr>,
              [Wrote 0 ''12345'']))
        \<and> buffered b' = ''345''
        \<and> (\<exists>k. buffered b'
              = drop k (buffered (bufferWriter
                  (holding (double 0 2 (Some (Err ''disk full'')) None) 10 ''12345'')))))"
proof -
  let ?s = "holding (double 0 2 (Some (Err ''disk full'')) None) 10 ''12345''"
  obtain b' where f: "Flush (bufferWriter ?s) []
      = Returns (Some (Err ''disk full''), b', [Wrote 0 ''12345''])"
    and b': "buffered b' = ''345''"
    by (simp add: Flush_def holding_def double_def slice_def copy_at_def buffered_def)
  have a: "int (length ''1234567890ABC'') > Available (bufferWriter ?s)"
    by (simp add: holding_def Available_def)
  have b: "Buffered (bufferWriter ?s) > 0"
    by (simp add: holding_def Buffered_def)
  have c: "bw_n (bufferWriter ?s) \<le> int (length (bw_buf (bufferWriter ?s)))
     \<and> 0 \<le> fst (fst (Writer_Write (bw_wr (bufferWriter ?s)) (buffered (bufferWriter ?s)) []))"
    by (simp add: holding_def double_def)
  from bufferWriterSyncer_Write_preflush_fails [OF a b f] a b c f b' show ?thesis
    by blast
qed

text \<open>
  Claim C8 (the close operation of the buffering wrapper stops the timer, signals the
  background task to stop, then flushes the buffered bytes to the inner sink once and
  returns the error of that flush): on a wrapper whose stop channel is open, close is
  the flush of the buffered writer in a wrapper whose ticker is stopped and whose stop
  channel is closed. When the buffer holds bytes and retains no error, the inner sink
  receives them in one write, and close returns the error of that write, or
  \<^verbatim>\<open>io.ErrShortWrite\<close> for a short count without an error. When the buffered
  writer retains the error of an earlier flush, close returns that error.
\<close>

theorem bufferWriterSyncer_close_flushes:
  assumes "stop s = Open"
  shows "bufferWriterSyncer_close s st
      = with_bufferWriter (s\<lparr>ticker := (ticker s)\<lparr>active := False\<rparr>, stop := Closed\<rparr>)
          (Flush (bufferWriter s) st)
    \<and> (0 < bw_n (bufferWriter s)
        \<and> bw_n (bufferWriter s) \<le> int (length (bw_buf (bufferWriter s)))
        \<and> bw_err (bufferWriter s) = None
        \<and> Writer_Write (bw_wr (bufferWriter s)) (buffered (bufferWriter s)) st = ((n, err), st')
       \<longrightarrow> (\<exists>s'. bufferWriterSyncer_close s st
                  = Returns ((if n < bw_n (bufferWriter s) \<and> err = None
                              then Some ErrShortWrite else err), s', st')
              \<and> \<not> active (ticker s') \<and> stop s' = Closed))
    \<and> (bw_err (bufferWriter s) = Some e
       \<longrightarrow> bufferWriterSyncer_close s st
             = Returns (Some e,
                 s\<lparr>ticker := (ticker s)\<lparr>active := False\<rparr>, stop := Closed\<rparr>, st))"
proof (intro conjI impI)
  from assms show c: "bufferWriterSyncer_close s st
      = with_bufferWriter (s\<lparr>ticker := (ticker s)\<lparr>active := False\<rparr>, stop := Closed\<rparr>)
          (Flush (bufferWriter s) st)"
    by (simp add: bufferWriterSyncer_close_def bufferWriterSyncer_Sync_def Ticker_Stop_def)
  assume a: "0 < bw_n (bufferWriter s)
        \<and> bw_n (bufferWriter s) \<le> int (length (bw_buf (bufferWriter s)))
        \<and> bw_err (bufferWriter s) = None
        \<and> Writer_Write (bw_wr (bufferWriter s)) (buffered (bufferWriter s)) st = ((n, err), st')"
  then show "\<exists>s'. bufferWriterSyncer_close s st
                  = Returns ((if n < bw_n (bufferWriter s) \<and> err = None
                              then Some ErrShortWrite else err), s', st')
              \<and> \<not> active (ticker s') \<and> stop s' = Closed"
    by (cases err) (simp_all add: c Flush_write)
next
  assume "bw_err (bufferWriter s) = Some e"
  with assms show "bufferWriterSyncer_close s st
      = Returns (Some e, s\<lparr>ticker := (ticker s)\<lparr>active := False\<rparr>, stop := Closed\<rparr>, st)"
    by (simp add: bufferWriterSyncer_close_def bufferWriterSyncer_Sync_def Ticker_Stop_def
        Flush_def)
qed

theorem bufferWriterSyncer_close_flushes_witness:
  "stop (holding (recorder 0) 10 ''12345'') = Open
   \<and> 0 < bw_n (bufferWriter (holding (recorder 0) 10 ''12345''))
   \<and> bw_n (bufferWriter (holding (recorder 0) 10 ''12345''))
       \<le> int (length (bw_buf (bufferWriter (holding (recorder 0) 10 ''12345''))))
   \<and> bw_err (bufferWriter (holding (recorder 0) 10 ''12345'')) = None
   \<and> Writer_Write (bw_wr (bufferWriter (holding (recorder 0) 10 ''12345'')))
        (buffered (bufferWriter (holding (recorder 0) 10 ''12345''))) []
       = ((5, None), [Wrote 0 ''12345''])
   \<and> (\<exists>s'. bufferWriterSyncer_close (holding (recorder 0) 10 ''12345'') []
          = Returns (None, s', [Wrote 0 ''12345''])
        \<and> \<not> active (ticker s') \<and> stop s' = Closed)
   \<and> stop (holding (double 0 0 (Some (Err ''disk full'')) None) 10 ''12345'') = Open
   \<and> (\<exists>s'. bufferWriterSyncer_close
              (holding (double 0 0 (Some (Err ''disk full'')) None) 10 ''12345'') []
          = Returns (Some (Err ''disk full''), s', [Wrote 0 ''12345''])
        \<and> \<not> active (ticker s') \<and> stop s' = Closed)
   \<and> stop ((holding (recorder 0) 10 ''12345'')
          \<lparr>bufferWriter := (bufferWriter (holding (recorder 0) 10 ''12345''))
             \<lparr>bw_err := Some (Err ''retained'')\<rparr>\<rparr>) = Open
   \<and> bw_err (bufferWriter ((holding (recorder 0) 10 ''12345'')
          \<lparr>bufferWriter := (bufferWriter (holding (recorder 0) 10 ''12345''))
             \<lparr>bw_err := Some (Err ''retained'')\<rparr>\<rparr>)) = Some (Err ''retained'')
   \<and> (\<exists>s'. bufferWriterSyncer_close ((holding (recorder 0) 10 ''12345'')
          \<lparr>bufferWriter := (bufferWriter (holding (recorder 0) 10 ''12345''))
             \<lparr>bw_err := Some (Err ''retained'')\<rparr>\<rparr>) []
        = Returns (Some (Err ''retained''), s', []))"
proof -
  let ?s = "holding (recorder 0) 10 ''12345'' :: event list bufferWriterSyncer"
  let ?t = "holding (double 0 0 (Some (Err ''disk full'')) None) 10 ''12345''"
  have o: "stop ?s = Open" and o': "stop ?t = Open"
    by (simp_all add: holding_def)
  have h: "0 < bw_n (bufferWriter ?s)
     \<and> bw_n (bufferWriter ?s) \<le> int (length (bw_buf (bufferWriter ?s)))
     \<and> bw_err (bufferWriter ?s) = None
     \<and> Writer_Write (bw_wr (bufferWriter ?s)) (buffered (bufferWriter ?s)) []
         = ((5, None), [Wrote 0 ''12345''])"
    by (simp add: holding_def buffered_def recorder_def)
  have h': "0 < bw_n (bufferWriter ?t)
     \<and> bw_n (bufferWriter ?t) \<le> int (length (bw_buf (bufferWriter ?t)))
     \<and> bw_err (bufferWriter ?t) = None
     \<and> Writer_Write (bw_wr (bufferWriter ?t)) (buffered (bufferWriter ?t)) []
         = ((0, Some (Err ''disk full'')), [Wrote 0 ''12345''])"
    by (simp add: holding_def buffered_def double_def)
  have n5: "bw_n (bufferWriter ?s) = 5" and n5': "bw_n (bufferWriter ?t) = 5"
    by (simp_all add: holding_def)
  from bufferWriterSyncer_close_flushes
    [OF o, of "[]" 5 None "[Wrote 0 ''12345'']", THEN conjunct2, THEN conjunct1] h
  have r: "\<exists>s'. bufferWriterSyncer_close ?s [] = Returns (None, s', [Wrote 0 ''12345''])
        \<and> \<not> active (ticker s') \<and> stop s' = Closed"
    by (simp add: n5)
  from bufferWriterSyncer_close_flushes
    [OF o', of "[]" 0 "Some (Err ''disk full'')" "[Wrote 0 ''12345'']", THEN conjunct2,
      THEN conjunct1] h'
  have r': "\<exists>s'. bufferWriterSyncer_close ?t []
          = Returns (Some (Err ''disk full''), s', [Wrote 0 ''12345''])
        \<and> \<not> active (ticker s') \<and> stop s' = Closed"
    by (simp add: n5')
  let ?u = "(holding (recorder 0) 10 ''12345'')
      \<lparr>bufferWriter := (bufferWriter (holding (recorder 0) 10 ''12345''))
         \<lparr>bw_err := Some (Err ''retained'')\<rparr>\<rparr> :: event list bufferWriterSyncer"
  have o'': "stop ?u = Open" and e'': "bw_err (bufferWriter ?u) = Some (Err ''retained'')"
    by (simp_all add: holding_def)
  from bufferWriterSyncer_close_flushes
    [OF o'', of "[]" 0 None "[]" "Err ''retained''", THEN conjunct2, THEN conjunct2] e''
  have r'': "\<exists>s'. bufferWriterSyncer_close ?u [] = Returns (Some (Err ''retained''), s', [])"
    by blast
  from o o' o'' e'' h r r' r'' show ?thesis
    by blast
qed



end
